theory Spec2Isabelle
  imports Main "HOL-Library.Word"
begin

section \<open>The delay-load notification hook of cmake-node\<close>

text \<open>
  The repository holds one function, \<^verbatim>\<open>load_exe_hook\<close>, in two source files
  (\<^verbatim>\<open>src/win_delay_load_hook.c\<close> and \<^verbatim>\<open>src/win_delay_load_hook.cc\<close>):

  \<^verbatim>\<open>
  static FARPROC WINAPI
  load_exe_hook(unsigned int event, DelayLoadInfo *info) {
    HMODULE m;

    if (event != dliNotePreLoadLibrary)
      return NULL;

    if (_stricmp(info->szDll, NODE_HOST_BINARY) != 0)
      return NULL;

    m = GetModuleHandle(NULL);

    return (FARPROC)m;
  }
  \<close>

  The function reads memory through two pointers and calls two routines of the platform.
  The embedding keeps all of that explicit: pointers are machine words, the memory
  of the process is part of a state, a read through a pointer that addresses no object
  is a fault, and every read and every platform call is recorded in a trace.
\<close>

subsection \<open>Pointers, events and the descriptor\<close>

text \<open>
  \<^verbatim>\<open>FARPROC\<close>, \<^verbatim>\<open>HMODULE\<close>, \<^verbatim>\<open>LPCSTR\<close> and \<^verbatim>\<open>DelayLoadInfo *\<close> are pointers: words of
  the width \<open>'w\<close> of the target (32 or 64 bits; the hook does not depend on it).
  \<^verbatim>\<open>NULL\<close> is the word 0.
\<close>

type_synonym 'w ptr = "'w word"

definition NULL :: "'w::len ptr" where
  "NULL = 0"

text \<open>
  The event is an \<^verbatim>\<open>unsigned int\<close>. The platform header \<^verbatim>\<open><delayimp.h>\<close>, which both
  files include, numbers the notifications from 0: \<^verbatim>\<open>dliStartProcessing\<close>,
  \<^verbatim>\<open>dliNotePreLoadLibrary\<close>, \<^verbatim>\<open>dliNotePreGetProcAddress\<close>, \<^verbatim>\<open>dliFailLoadLib\<close>,
  \<^verbatim>\<open>dliFailGetProc\<close>, \<^verbatim>\<open>dliNoteEndProcessing\<close>.
\<close>

definition dliStartProcessing :: "32 word" where
  "dliStartProcessing = 0"

definition dliNotePreLoadLibrary :: "32 word" where
  "dliNotePreLoadLibrary = 1"

definition dliNotePreGetProcAddress :: "32 word" where
  "dliNotePreGetProcAddress = 2"

definition dliFailLoadLib :: "32 word" where
  "dliFailLoadLib = 3"

definition dliFailGetProc :: "32 word" where
  "dliFailGetProc = 4"

definition dliNoteEndProcessing :: "32 word" where
  "dliNoteEndProcessing = 5"

text \<open>
  The load-request descriptor, with the fields of the platform's \<^verbatim>\<open>DelayLoadInfo\<close>;
  \<open>'p\<close> is the type of its pointers. The hook reads \<^verbatim>\<open>szDll\<close> only.
\<close>

record 'p DelayLoadProc =
  fImportByName :: bool
  szProcName :: 'p

record 'p DelayLoadInfo =
  cb :: "32 word"
  pidd :: 'p
  ppfn :: 'p
  szDll :: 'p
  dlp :: "'p DelayLoadProc"
  hmodCur :: 'p
  pfnCur :: 'p
  dwLastError :: "32 word"

subsection \<open>The process: memory, the module lookup, the trace\<close>

text \<open>
  What the hook does to its environment: it reads the \<^verbatim>\<open>szDll\<close> field of the
  descriptor at an address, \<^verbatim>\<open>_stricmp\<close> reads the characters at an address, and
  \<^verbatim>\<open>GetModuleHandle\<close> is called with an argument.
\<close>

datatype 'p access =
    Load_szDll 'p
  | Load_chars 'p
  | Call_GetModuleHandle 'p

datatype 'p fault =
    Access_violation 'p
  | Invalid_parameter

text \<open>
  The state of the process, as far as the hook can observe it.
  \<^item> \<open>descriptors\<close>: the \<^verbatim>\<open>DelayLoadInfo\<close> objects in memory, by address;
  \<^item> \<open>strings\<close>: the character arrays in memory, by address: the characters before
    the terminating \<^verbatim>\<open>'\0'\<close> that ends the array;
  \<^item> \<open>module_handles\<close>: what the platform's module lookup answers for each name
    pointer; at \<^verbatim>\<open>NULL\<close> it answers with the handle of the image of the process, or
    with \<^verbatim>\<open>NULL\<close> when the lookup fails;
  \<^item> \<open>trace\<close>: the accesses made so far, oldest first.
\<close>

record 'p process =
  descriptors :: "'p \<rightharpoonup> 'p DelayLoadInfo"
  strings :: "'p \<rightharpoonup> string"
  module_handles :: "'p \<Rightarrow> 'p"
  trace :: "'p access list"

definition log_access :: "'p access \<Rightarrow> 'p process \<Rightarrow> 'p process" where
  "log_access a s = s\<lparr>trace := trace s @ [a]\<rparr>"

text \<open>\<^verbatim>\<open>info->szDll\<close>: a read through \<^verbatim>\<open>info\<close>, a fault when no descriptor is there.\<close>

definition load_szDll ::
  "('w::len) ptr \<Rightarrow> 'w ptr process \<Rightarrow> ('w ptr fault + 'w ptr) \<times> 'w ptr process" where
  "load_szDll info s =
     (if info = NULL then (Inl (Access_violation info), log_access (Load_szDll info) s)
      else case descriptors s info of
             None \<Rightarrow> (Inl (Access_violation info), log_access (Load_szDll info) s)
           | Some d \<Rightarrow> (Inr (szDll d), log_access (Load_szDll info) s))"

text \<open>
  \<^verbatim>\<open>GetModuleHandle(lpModuleName)\<close>: the answer of the platform, which may be
  \<^verbatim>\<open>NULL\<close>.
\<close>

definition GetModuleHandle ::
  "('w::len) ptr \<Rightarrow> 'w ptr process \<Rightarrow> 'w ptr \<times> 'w ptr process" where
  "GetModuleHandle lpModuleName s =
     (module_handles s lpModuleName, log_access (Call_GetModuleHandle lpModuleName) s)"

subsection \<open>The comparison without case\<close>

text \<open>
  \<^verbatim>\<open>_stricmp\<close> is the platform's comparison of two C strings after converting each
  character to lowercase. In the C locale, which a program has until it sets another,
  the lowercase of \<^verbatim>\<open>'A'\<close> to \<^verbatim>\<open>'Z'\<close> is \<^verbatim>\<open>c - 'A' + 'a'\<close> and every other
  character is its own lowercase. The routine walks both strings:

  \<^verbatim>\<open>
  do {
    f = tolower(*dst++);
    l = tolower(*src++);
  } while (f && f == l);
  return f - l;
  \<close>

  with the characters read as \<^verbatim>\<open>unsigned char\<close>. A character list of the model is the
  array before its terminator, so the read at the end of a list yields \<^verbatim>\<open>'\0'\<close>.
\<close>

definition ascii_tolower :: "char \<Rightarrow> char" where
  "ascii_tolower c =
     (if (of_char (CHR ''A'') :: nat) \<le> of_char c \<and> (of_char c :: nat) \<le> of_char (CHR ''Z'')
      then char_of ((of_char c :: nat) - of_char (CHR ''A'') + of_char (CHR ''a''))
      else c)"

fun peek :: "string \<Rightarrow> char" where
  "peek [] = CHR 0x00"
| "peek (c # cs) = c"

function ascii_stricmp :: "string \<Rightarrow> string \<Rightarrow> int" where
  "ascii_stricmp dst src =
     (let f = ascii_tolower (peek dst); l = ascii_tolower (peek src)
      in if f \<noteq> CHR 0x00 \<and> f = l then ascii_stricmp (tl dst) (tl src)
         else int (of_char f) - int (of_char l))"
  by pat_completeness auto
termination
proof (relation "measure (\<lambda>(dst, src). length dst)")
  show "wf (measure (\<lambda>(dst, src). length dst))"
    by simp
next
  fix dst src :: string and f l :: char
  assume "f = ascii_tolower (peek dst)" and "f \<noteq> CHR 0x00 \<and> f = l"
  then have "dst \<noteq> []"
    by (cases dst) (auto simp: ascii_tolower_def)
  then show "((tl dst, tl src), (dst, src)) \<in> measure (\<lambda>(dst, src). length dst)"
    by simp
qed

declare ascii_stricmp.simps [simp del]

text \<open>
  \<^verbatim>\<open>_stricmp(string1, string2)\<close> as the hook calls it: \<open>string1\<close> is a pointer into
  memory, \<open>string2\<close> is the string literal \<^verbatim>\<open>NODE_HOST_BINARY\<close>, given by its
  characters. The routine validates its parameters: a null pointer reaches the invalid
  parameter handler, which ends the process.
\<close>

definition stricmp ::
  "('w::len) ptr \<Rightarrow> string \<Rightarrow> 'w ptr process \<Rightarrow> ('w ptr fault + int) \<times> 'w ptr process" where
  "stricmp string1 string2 s =
     (if string1 = NULL then (Inl Invalid_parameter, s)
      else case strings s string1 of
             None \<Rightarrow> (Inl (Access_violation string1), log_access (Load_chars string1) s)
           | Some cs \<Rightarrow> (Inr (ascii_stricmp cs string2), log_access (Load_chars string1) s))"

subsection \<open>The hook\<close>

text \<open>
  \<^verbatim>\<open>NODE_HOST_BINARY\<close> is a macro that the build defines (a string literal, the file name of
  the host executable); it is the first parameter here. The cast of the module handle to
  \<^verbatim>\<open>FARPROC\<close> converts a pointer to a pointer and keeps the word.
\<close>

definition load_exe_hook ::
  "string \<Rightarrow> 32 word \<Rightarrow> ('w::len) ptr \<Rightarrow> 'w ptr process \<Rightarrow>
     ('w ptr fault + 'w ptr) \<times> 'w ptr process" where
  "load_exe_hook NODE_HOST_BINARY event info s =
     (if event \<noteq> dliNotePreLoadLibrary then (Inr NULL, s)
      else case load_szDll info s of
             (Inl e, s1) \<Rightarrow> (Inl e, s1)
           | (Inr name, s1) \<Rightarrow>
               (case stricmp name NODE_HOST_BINARY s1 of
                  (Inl e, s2) \<Rightarrow> (Inl e, s2)
                | (Inr r, s2) \<Rightarrow>
                    if r \<noteq> 0 then (Inr NULL, s2)
                    else (case GetModuleHandle NULL s2 of (m, s3) \<Rightarrow> (Inr m, s3))))"

text \<open>The function of \<^verbatim>\<open>win_delay_load_hook.cc\<close>, lines 42 to 55.\<close>

definition load_exe_hook_cc ::
  "string \<Rightarrow> 32 word \<Rightarrow> ('w::len) ptr \<Rightarrow> 'w ptr process \<Rightarrow>
     ('w ptr fault + 'w ptr) \<times> 'w ptr process" where
  "load_exe_hook_cc NODE_HOST_BINARY event info s =
     (if event \<noteq> dliNotePreLoadLibrary then (Inr NULL, s)
      else case load_szDll info s of
             (Inl e, s1) \<Rightarrow> (Inl e, s1)
           | (Inr name, s1) \<Rightarrow>
               (case stricmp name NODE_HOST_BINARY s1 of
                  (Inl e, s2) \<Rightarrow> (Inl e, s2)
                | (Inr r, s2) \<Rightarrow>
                    if r \<noteq> 0 then (Inr NULL, s2)
                    else (case GetModuleHandle NULL s2 of (m, s3) \<Rightarrow> (Inr m, s3))))"

subsection \<open>Notions for stating the properties\<close>

text \<open>The C string that a character array holds: its characters before the first \<^verbatim>\<open>'\0'\<close>.\<close>

definition cstr :: "string \<Rightarrow> string" where
  "cstr cs = takeWhile (\<lambda>c. c \<noteq> CHR 0x00) cs"

text \<open>
  Two characters are the same letter when they are equal or when one is an uppercase
  letter \<^verbatim>\<open>A\<close> to \<^verbatim>\<open>Z\<close> and the other the lowercase letter 32 places after it. Two names
  are case variants of each other (equal under case-insensitive comparison) when they
  have the same letters position by position.
\<close>

definition is_upper :: "char \<Rightarrow> bool" where
  "is_upper c \<longleftrightarrow> (of_char (CHR ''A'') :: nat) \<le> of_char c \<and> (of_char c :: nat) \<le> of_char (CHR ''Z'')"

definition same_letter :: "char \<Rightarrow> char \<Rightarrow> bool" where
  "same_letter c d \<longleftrightarrow>
     c = d \<or> (is_upper c \<and> (of_char d :: nat) = of_char c + 32)
           \<or> (is_upper d \<and> (of_char c :: nat) = of_char d + 32)"

definition case_variant :: "string \<Rightarrow> string \<Rightarrow> bool" where
  "case_variant a b \<longleftrightarrow> list_all2 same_letter a b"

text \<open>
  The requested library name of the descriptor at \<open>info\<close>: defined when \<open>info\<close>
  addresses a descriptor whose \<^verbatim>\<open>szDll\<close> addresses a character array.
\<close>

definition requested_name :: "('w::len) ptr process \<Rightarrow> 'w ptr \<Rightarrow> string option" where
  "requested_name s info =
     (if info = NULL then None
      else case descriptors s info of
             None \<Rightarrow> None
           | Some d \<Rightarrow>
               if szDll d = NULL then None
               else map_option cstr (strings s (szDll d)))"

text \<open>How many times the trace holds a call of the module lookup.\<close>

fun is_lookup :: "'p access \<Rightarrow> bool" where
  "is_lookup (Call_GetModuleHandle p) = True"
| "is_lookup (Load_szDll p) = False"
| "is_lookup (Load_chars p) = False"

definition lookups :: "'p process \<Rightarrow> nat" where
  "lookups s = length (filter is_lookup (trace s))"

subsection \<open>An example process\<close>

text \<open>
  A 64-bit process with four descriptors. Those at \<open>0x1000\<close> and \<open>0x1100\<close> ask for the
  host binary, in upper and in lower case, and differ in every other field; the one at
  \<open>0x1200\<close> asks for another library; the one at \<open>0x1300\<close> asks for the name of the
  first, held in another array, and differs from the first in every other field. The
  image of the process is loaded at \<open>0x400000\<close>.
\<close>

definition example_descriptors :: "64 ptr \<rightharpoonup> 64 ptr DelayLoadInfo" where
  "example_descriptors =
     [0x1000 \<mapsto> \<lparr>cb = 72, pidd = 0x5000, ppfn = 0x6000, szDll = 0x2000,
                   dlp = \<lparr>fImportByName = True, szProcName = 0x7000\<rparr>,
                   hmodCur = 0, pfnCur = 0, dwLastError = 0\<rparr>,
      0x1100 \<mapsto> \<lparr>cb = 64, pidd = 0x5100, ppfn = 0x6100, szDll = 0x2100,
                   dlp = \<lparr>fImportByName = False, szProcName = 0x11\<rparr>,
                   hmodCur = 0x400000, pfnCur = 0x401000, dwLastError = 126\<rparr>,
      0x1200 \<mapsto> \<lparr>cb = 72, pidd = 0x5200, ppfn = 0x6200, szDll = 0x2200,
                   dlp = \<lparr>fImportByName = True, szProcName = 0x7200\<rparr>,
                   hmodCur = 0, pfnCur = 0, dwLastError = 0\<rparr>,
      0x1300 \<mapsto> \<lparr>cb = 64, pidd = 0x5300, ppfn = 0x6300, szDll = 0x2300,
                   dlp = \<lparr>fImportByName = False, szProcName = 0x12\<rparr>,
                   hmodCur = 0x400000, pfnCur = 0x402000, dwLastError = 127\<rparr>]"

definition example_strings :: "64 ptr \<rightharpoonup> string" where
  "example_strings =
     [0x2000 \<mapsto> ''APP.EXE'', 0x2100 \<mapsto> ''app.exe'', 0x2200 \<mapsto> ''other.dll'',
      0x2300 \<mapsto> ''APP.EXE'']"

definition example_process :: "64 ptr process" where
  "example_process =
     \<lparr>descriptors = example_descriptors, strings = example_strings,
      module_handles = (\<lambda>lpModuleName. if lpModuleName = NULL then 0x400000 else NULL),
      trace = []\<rparr>"

text \<open>The same process when the platform's module lookup fails.\<close>

definition failing_process :: "64 ptr process" where
  "failing_process = example_process\<lparr>module_handles := (\<lambda>lpModuleName. NULL)\<rparr>"

text \<open>A process with no descriptor and no string in memory.\<close>

definition empty_process :: "64 ptr process" where
  "empty_process =
     \<lparr>descriptors = Map.empty, strings = Map.empty,
      module_handles = (\<lambda>lpModuleName. if lpModuleName = NULL then 0x400000 else NULL),
      trace = []\<rparr>"

subsection \<open>Letters beyond ASCII\<close>

text \<open>
  In the 8-bit character sets of the platform that extend ISO 8859-1, the characters
  \<open>0xC0\<close> to \<open>0xDE\<close>, but for the multiplication sign \<open>0xD7\<close>, are uppercase letters
  too, each with its lowercase letter 32 places after it (\<open>0xC9\<close> and \<open>0xE9\<close> are the
  upper and the lower case of one accented letter). Two names are case variants in this
  wider sense when they have the same letters position by position.
\<close>

definition is_upper_latin1 :: "char \<Rightarrow> bool" where
  "is_upper_latin1 c \<longleftrightarrow>
     is_upper c \<or>
     ((0xC0 :: nat) \<le> of_char c \<and> (of_char c :: nat) \<le> 0xDE \<and> (of_char c :: nat) \<noteq> 0xD7)"

definition same_letter_latin1 :: "char \<Rightarrow> char \<Rightarrow> bool" where
  "same_letter_latin1 c d \<longleftrightarrow>
     c = d \<or> (is_upper_latin1 c \<and> (of_char d :: nat) = of_char c + 32)
           \<or> (is_upper_latin1 d \<and> (of_char c :: nat) = of_char d + 32)"

definition case_variant_latin1 :: "string \<Rightarrow> string \<Rightarrow> bool" where
  "case_variant_latin1 a b \<longleftrightarrow> list_all2 same_letter_latin1 a b"

text \<open>
  The example process with other names in memory: the descriptor at \<open>0x1000\<close> asks for
  the accented name in upper case, the one at \<open>0x1100\<close> for the same name in lower case.
\<close>

definition accented_process :: "64 ptr process" where
  "accented_process =
     example_process\<lparr>strings :=
       [0x2000 \<mapsto> CHR 0xC9 # ''.EXE'', 0x2100 \<mapsto> CHR 0xE9 # ''.exe'']\<rparr>"

section \<open>Properties\<close>

subsection \<open>Characters and the comparison\<close>

lemma of_char_lt_256: "(of_char c :: nat) < 256"
  by (metis of_char_mod_256 mod_less_divisor zero_less_numeral)

lemma of_char_nat_eq_0: "(of_char c :: nat) = 0 \<longleftrightarrow> c = CHR 0x00"
  using of_char_eq_iff [where 'a = nat, of c "CHR 0x00"] by simp

lemma of_char_A: "(of_char (CHR ''A'') :: nat) = 65"
  by simp

lemma of_char_Z: "(of_char (CHR ''Z'') :: nat) = 90"
  by simp

lemma ascii_tolower_NUL: "ascii_tolower c = CHR 0x00 \<longleftrightarrow> c = CHR 0x00"
  by (cases c) (auto simp: ascii_tolower_def char_of_def split: if_splits)

lemma ascii_tolower_NUL_const [simp]: "ascii_tolower (CHR 0x00) = CHR 0x00"
  by (simp add: ascii_tolower_def)

text \<open>The lowercase of a character as a number: the letters \<open>A\<close> to \<open>Z\<close> move up by 32.\<close>

lemma of_char_ascii_tolower:
  "(of_char (ascii_tolower c) :: nat) =
     (if 65 \<le> (of_char c :: nat) \<and> (of_char c :: nat) \<le> 90 then of_char c + 32 else of_char c)"
  using of_char_lt_256 [of c]
  by (simp add: ascii_tolower_def)

text \<open>
  The lowercase conversion identifies exactly the characters that are the same letter.
\<close>

lemma ascii_tolower_eq_iff: "ascii_tolower c = ascii_tolower d \<longleftrightarrow> same_letter c d"
proof -
  have "ascii_tolower c = ascii_tolower d \<longleftrightarrow>
        (of_char (ascii_tolower c) :: nat) = of_char (ascii_tolower d)"
    by simp
  also have "\<dots> \<longleftrightarrow> same_letter c d"
    unfolding of_char_ascii_tolower same_letter_def is_upper_def of_char_A of_char_Z
      of_char_eq_iff [where 'a = nat, symmetric, of c d]
    by (simp only: split: if_splits) presburger
  finally show ?thesis .
qed

lemma same_letter_NUL_right: "same_letter c (CHR 0x00) \<longleftrightarrow> c = CHR 0x00"
  by (auto simp: same_letter_def is_upper_def)

lemma case_variant_iff_tolower:
  "case_variant a b \<longleftrightarrow> map ascii_tolower a = map ascii_tolower b"
proof (induction a arbitrary: b)
  case Nil
  show ?case by (simp add: case_variant_def)
next
  case (Cons c cs)
  then show ?case
    by (cases b) (simp_all add: case_variant_def ascii_tolower_eq_iff)
qed

lemma cstr_Nil [simp]: "cstr [] = []"
  by (simp add: cstr_def)

lemma cstr_Cons [simp]: "cstr (c # cs) = (if c = CHR 0x00 then [] else c # cstr cs)"
  by (simp add: cstr_def)

text \<open>One round of the loop, by the shape of the two arrays.\<close>

lemma ascii_stricmp_Nil:
  "ascii_stricmp [] src = - int (of_char (ascii_tolower (peek src)))"
  by (subst ascii_stricmp.simps) (simp add: ascii_tolower_def)

lemma ascii_stricmp_Cons_Nil:
  "ascii_stricmp (c # cs) [] = int (of_char (ascii_tolower c))"
  by (subst ascii_stricmp.simps) (simp add: Let_def ascii_tolower_def)

lemma ascii_stricmp_Cons_Cons:
  "ascii_stricmp (c # cs) (d # ds) =
     (if ascii_tolower c \<noteq> CHR 0x00 \<and> ascii_tolower c = ascii_tolower d
      then ascii_stricmp cs ds
      else int (of_char (ascii_tolower c)) - int (of_char (ascii_tolower d)))"
  by (subst ascii_stricmp.simps) (simp add: Let_def)

text \<open>
  The comparison answers 0 exactly when the two C strings are case variants of each
  other. This is the only fact about \<^verbatim>\<open>_stricmp\<close> that the hook relies on.
\<close>

lemma ascii_stricmp_eq_0_iff:
  "ascii_stricmp a b = 0 \<longleftrightarrow> case_variant (cstr a) (cstr b)"
proof (induction a arbitrary: b)
  case Nil
  show ?case
    by (cases b) (auto simp: ascii_stricmp_Nil case_variant_def of_char_nat_eq_0 ascii_tolower_NUL)
next
  case (Cons c cs)
  show ?case
  proof (cases b)
    case Nil
    then show ?thesis
      by (auto simp: ascii_stricmp_Cons_Nil case_variant_def of_char_nat_eq_0 ascii_tolower_NUL)
  next
    case (Cons d ds)
    show ?thesis
    proof (cases "ascii_tolower c \<noteq> CHR 0x00 \<and> ascii_tolower c = ascii_tolower d")
      case True
      from True have "c \<noteq> CHR 0x00"
        by (simp add: ascii_tolower_NUL)
      moreover from True have "ascii_tolower d \<noteq> CHR 0x00"
        by metis
      then have "d \<noteq> CHR 0x00"
        by (simp add: ascii_tolower_NUL)
      moreover from True have "same_letter c d"
        by (simp add: ascii_tolower_eq_iff)
      moreover from True have "ascii_stricmp (c # cs) (d # ds) = ascii_stricmp cs ds"
        by (subst ascii_stricmp_Cons_Cons) (rule if_P)
      ultimately show ?thesis
        using Cons.IH [of ds]
        by (simp add: \<open>b = d # ds\<close> case_variant_def)
    next
      case False
      then consider "c = CHR 0x00" | "c \<noteq> CHR 0x00" "\<not> same_letter c d"
        by (auto simp: ascii_tolower_NUL ascii_tolower_eq_iff)
      then show ?thesis
      proof cases
        case 1
        then show ?thesis
          by (auto simp: \<open>b = d # ds\<close> ascii_stricmp_Cons_Cons case_variant_def
              of_char_nat_eq_0 ascii_tolower_NUL)
      next
        case 2
        then have "ascii_tolower c \<noteq> ascii_tolower d"
          by (simp add: ascii_tolower_eq_iff)
        with 2 show ?thesis
          by (auto simp: \<open>b = d # ds\<close> ascii_stricmp_Cons_Cons case_variant_def
              same_letter_NUL_right)
      qed
    qed
  qed
qed

subsection \<open>What one call of the hook does\<close>

lemmas hook_defs =
  load_exe_hook_def load_szDll_def stricmp_def GetModuleHandle_def log_access_def

lemmas example_defs =
  example_process_def example_descriptors_def example_strings_def failing_process_def
  empty_process_def

text \<open>
  With a descriptor that names a library, the call ends without a fault, and its result
  is decided by the event and by the name.
\<close>

lemma load_exe_hook_result:
  assumes "requested_name s info = Some n"
  shows "fst (load_exe_hook NODE_HOST_BINARY event info s) =
           Inr (if event = dliNotePreLoadLibrary \<and> case_variant n (cstr NODE_HOST_BINARY)
                then module_handles s NULL else NULL)"
  using assms
  by (auto simp: hook_defs requested_name_def ascii_stricmp_eq_0_iff
      split: if_splits option.splits)

lemma load_exe_hook_lookups:
  assumes "requested_name s info = Some n"
  shows "lookups (snd (load_exe_hook NODE_HOST_BINARY event info s)) =
           lookups s +
           (if event = dliNotePreLoadLibrary \<and> case_variant n (cstr NODE_HOST_BINARY)
            then 1 else 0)"
  using assms
  by (auto simp: hook_defs lookups_def requested_name_def ascii_stricmp_eq_0_iff
      split: if_splits option.splits)

lemma load_exe_hook_other_event:
  "event \<noteq> dliNotePreLoadLibrary \<Longrightarrow>
     load_exe_hook NODE_HOST_BINARY event info s = (Inr NULL, s)"
  by (simp add: load_exe_hook_def)

text \<open>The call changes nothing of the process but the trace, and does not look at the trace.\<close>

lemma load_exe_hook_frame:
  "\<exists>t. snd (load_exe_hook NODE_HOST_BINARY event info s) = s\<lparr>trace := t\<rparr>"
proof (cases "event \<noteq> dliNotePreLoadLibrary")
  case True
  then have "snd (load_exe_hook NODE_HOST_BINARY event info s) = s\<lparr>trace := trace s\<rparr>"
    by (simp add: load_exe_hook_def)
  then show ?thesis ..
next
  case False
  then show ?thesis
    by (auto simp: hook_defs split: option.splits)
qed

lemma load_exe_hook_trace_irrelevant:
  "fst (load_exe_hook NODE_HOST_BINARY event info (s\<lparr>trace := t\<rparr>)) =
     fst (load_exe_hook NODE_HOST_BINARY event info s)"
  by (auto simp: hook_defs split: option.splits)

lemma load_exe_hook_cc_eq: "load_exe_hook_cc = load_exe_hook"
  by (intro ext) (simp add: load_exe_hook_cc_def load_exe_hook_def)

text \<open>
  The guard on the event is what protects the read: with the pre-load event and a null
  descriptor pointer the call faults at its first access.
\<close>

lemma load_exe_hook_null_descriptor:
  "load_exe_hook host dliNotePreLoadLibrary NULL s =
     (Inl (Access_violation NULL), s\<lparr>trace := trace s @ [Load_szDll NULL]\<rparr>)"
  by (simp add: hook_defs)

text \<open>Facts of the example process.\<close>

lemma example_names:
  "requested_name example_process 0x1000 = Some ''APP.EXE''"
  "requested_name example_process 0x1100 = Some ''app.exe''"
  "requested_name example_process 0x1200 = Some ''other.dll''"
  "requested_name example_process 0x1300 = Some ''APP.EXE''"
  "requested_name failing_process 0x1000 = Some ''APP.EXE''"
  by (simp_all add: requested_name_def example_defs NULL_def)

lemma example_case_variants:
  "case_variant ''APP.EXE'' (cstr ''app.exe'')"
  "case_variant ''APP.EXE'' ''app.exe''"
  "\<not> case_variant ''other.dll'' (cstr ''app.exe'')"
  by (simp_all add: case_variant_def same_letter_def is_upper_def)

lemma example_lookups:
  "module_handles example_process NULL = 0x400000"
  "module_handles failing_process NULL = NULL"
  by (simp_all add: example_defs)

text \<open>Facts of the process with the accented names.\<close>

lemma accented_names:
  "requested_name accented_process 0x1000 = Some (CHR 0xC9 # ''.EXE'')"
  "requested_name accented_process 0x1100 = Some (CHR 0xE9 # ''.exe'')"
  by (simp_all add: requested_name_def accented_process_def example_defs NULL_def)

lemma accented_case_variants:
  "case_variant_latin1 (CHR 0xC9 # ''.EXE'') (CHR 0xE9 # ''.exe'')"
  "\<not> case_variant (CHR 0xC9 # ''.EXE'') (cstr (CHR 0xE9 # ''.exe''))"
  "case_variant (CHR 0xE9 # ''.exe'') (cstr (CHR 0xE9 # ''.exe''))"
  by (simp_all add: case_variant_latin1_def same_letter_latin1_def is_upper_latin1_def
      case_variant_def same_letter_def is_upper_def)

lemma accented_lookup: "module_handles accented_process NULL = 0x400000"
  by (simp add: accented_process_def example_defs)

section \<open>The claims\<close>

text \<open>
  In the statements below the host-binary name is the C string of the literal,
  \<open>cstr NODE_HOST_BINARY\<close>, and the result of a call is the first component of what
  \<open>load_exe_hook\<close> returns; \<open>Inr NULL\<close> is the null "no opinion" result.
\<close>




text \<open>
  C2. For the pre-load event and a requested name that is not a case variant of the
  host-binary name, the hook returns the null result.
\<close>

theorem hook_other_name_no_opinion:
  assumes name: "requested_name s info = Some n"
    and other: "\<not> case_variant n (cstr NODE_HOST_BINARY)"
  shows "fst (load_exe_hook NODE_HOST_BINARY dliNotePreLoadLibrary info s) = Inr NULL"
  using other by (simp add: load_exe_hook_result [OF name])

theorem hook_other_name_no_opinion_witness:
  "requested_name example_process 0x1200 = Some ''other.dll'' \<and>
   \<not> case_variant ''other.dll'' (cstr ''app.exe'') \<and>
   fst (load_exe_hook ''app.exe'' dliNotePreLoadLibrary 0x1200 example_process) = Inr NULL"
proof -
  have name: "requested_name example_process 0x1200 = Some ''other.dll''"
    by (rule example_names)
  have other: "\<not> case_variant ''other.dll'' (cstr ''app.exe'')"
    by (rule example_case_variants)
  show ?thesis
    using name other hook_other_name_no_opinion [OF name other]
    by simp
qed

text \<open>
  C3. For every event other than the pre-load notification, every descriptor pointer and
  every state of the memory, the hook returns the null result.
\<close>

theorem hook_other_event_no_opinion:
  assumes "event \<noteq> dliNotePreLoadLibrary"
  shows "fst (load_exe_hook NODE_HOST_BINARY event info s) = Inr NULL"
  using assms by (simp add: load_exe_hook_def)

theorem hook_other_event_no_opinion_witness:
  "dliFailLoadLib \<noteq> dliNotePreLoadLibrary \<and>
   requested_name example_process 0x1000 = Some ''APP.EXE'' \<and>
   fst (load_exe_hook ''app.exe'' dliFailLoadLib 0x1000 example_process) = Inr NULL"
proof -
  have event: "dliFailLoadLib \<noteq> dliNotePreLoadLibrary"
    by (simp add: dliFailLoadLib_def dliNotePreLoadLibrary_def)
  show ?thesis
    using event example_names(1)
      hook_other_event_no_opinion [OF event, of "''app.exe''" "0x1000" example_process]
    by simp
qed

text \<open>
  C4, as the code has it. The result does not depend on the case of the ASCII letters
  (\<^verbatim>\<open>A\<close> to \<^verbatim>\<open>Z\<close>, \<^verbatim>\<open>a\<close> to \<^verbatim>\<open>z\<close>) of the requested name: for every event, two
  calls whose descriptors name variants of one another in the case of those letters,
  in processes with one image handle, return the same result. This holds of the
  function of either source file.
\<close>

theorem hook_case_invariant:
  assumes name1: "requested_name s1 info1 = Some n1"
    and name2: "requested_name s2 info2 = Some n2"
    and variant: "case_variant n1 n2"
    and image: "module_handles s1 NULL = module_handles s2 NULL"
  shows "fst (load_exe_hook NODE_HOST_BINARY event info1 s1) =
           fst (load_exe_hook NODE_HOST_BINARY event info2 s2) \<and>
         fst (load_exe_hook_cc NODE_HOST_BINARY event info1 s1) =
           fst (load_exe_hook_cc NODE_HOST_BINARY event info2 s2)"
proof -
  from variant have "map ascii_tolower n1 = map ascii_tolower n2"
    by (simp add: case_variant_iff_tolower)
  then have "case_variant n1 (cstr NODE_HOST_BINARY) = case_variant n2 (cstr NODE_HOST_BINARY)"
    by (simp add: case_variant_iff_tolower)
  with image have "fst (load_exe_hook NODE_HOST_BINARY event info1 s1) =
      fst (load_exe_hook NODE_HOST_BINARY event info2 s2)"
    by (simp add: load_exe_hook_result [OF name1] load_exe_hook_result [OF name2])
  then show ?thesis
    by (simp add: load_exe_hook_cc_eq)
qed

theorem hook_case_invariant_witness:
  "requested_name example_process 0x1000 = Some ''APP.EXE'' \<and>
   requested_name example_process 0x1100 = Some ''app.exe'' \<and>
   case_variant ''APP.EXE'' ''app.exe'' \<and>
   fst (load_exe_hook ''app.exe'' dliNotePreLoadLibrary 0x1000 example_process) =
     fst (load_exe_hook ''app.exe'' dliNotePreLoadLibrary 0x1100 example_process) \<and>
   fst (load_exe_hook_cc ''app.exe'' dliNotePreLoadLibrary 0x1000 example_process) =
     fst (load_exe_hook_cc ''app.exe'' dliNotePreLoadLibrary 0x1100 example_process)"
proof -
  have name1: "requested_name example_process 0x1000 = Some ''APP.EXE''"
    and name2: "requested_name example_process 0x1100 = Some ''app.exe''"
    by (rule example_names)+
  have variant: "case_variant ''APP.EXE'' ''app.exe''"
    by (rule example_case_variants)
  show ?thesis
    using name1 name2 variant hook_case_invariant [OF name1 name2 variant refl]
    by simp
qed

text \<open>
  C4 as stated speaks of every name and any case variant of it. The comparison of the
  hook lowers the ASCII letters only, so a change of case in a letter beyond ASCII
  changes the result: the host binary being the accented name in lower case, the hook
  returns the null result for that name in upper case and the image handle for it in
  lower case, in either source file.
\<close>

theorem hook_case_invariant_counterexample:
  "requested_name accented_process 0x1000 = Some (CHR 0xC9 # ''.EXE'') \<and>
   requested_name accented_process 0x1100 = Some (CHR 0xE9 # ''.exe'') \<and>
   case_variant_latin1 (CHR 0xC9 # ''.EXE'') (CHR 0xE9 # ''.exe'') \<and>
   fst (load_exe_hook (CHR 0xE9 # ''.exe'') dliNotePreLoadLibrary 0x1000 accented_process) =
     Inr NULL \<and>
   fst (load_exe_hook (CHR 0xE9 # ''.exe'') dliNotePreLoadLibrary 0x1100 accented_process) =
     Inr 0x400000 \<and>
   fst (load_exe_hook_cc (CHR 0xE9 # ''.exe'') dliNotePreLoadLibrary 0x1000 accented_process) \<noteq>
     fst (load_exe_hook_cc (CHR 0xE9 # ''.exe'') dliNotePreLoadLibrary 0x1100 accented_process)"
proof -
  have upper: "fst (load_exe_hook (CHR 0xE9 # ''.exe'') dliNotePreLoadLibrary 0x1000
      accented_process) = Inr NULL"
    using accented_case_variants(2)
    by (simp add: load_exe_hook_result [OF accented_names(1)])
  have lower: "fst (load_exe_hook (CHR 0xE9 # ''.exe'') dliNotePreLoadLibrary 0x1100
      accented_process) = Inr 0x400000"
    using accented_case_variants(3)
    by (simp add: load_exe_hook_result [OF accented_names(2)] accented_lookup)
  have "(Inr NULL :: 64 ptr fault + 64 ptr) \<noteq> Inr 0x400000"
    by (simp add: NULL_def)
  with upper lower accented_names accented_case_variants(1) show ?thesis
    by (simp add: load_exe_hook_cc_eq)
qed

text \<open>
  C5. When the module lookup with no name answers the null handle, the hook, called
  with the pre-load event and a name that matches the host binary, returns the null
  result, and it has called the lookup once: there is no second attempt.
\<close>

theorem hook_lookup_failure_returns_null:
  assumes failed: "module_handles s NULL = NULL"
    and name: "requested_name s info = Some n"
    and host: "case_variant n (cstr NODE_HOST_BINARY)"
  shows "fst (load_exe_hook NODE_HOST_BINARY dliNotePreLoadLibrary info s) = Inr NULL \<and>
         lookups (snd (load_exe_hook NODE_HOST_BINARY dliNotePreLoadLibrary info s)) =
           lookups s + 1"
  using failed host
  by (simp add: load_exe_hook_result [OF name] load_exe_hook_lookups [OF name])

theorem hook_lookup_failure_returns_null_witness:
  "module_handles failing_process NULL = NULL \<and>
   requested_name failing_process 0x1000 = Some ''APP.EXE'' \<and>
   case_variant ''APP.EXE'' (cstr ''app.exe'') \<and>
   load_exe_hook ''app.exe'' dliNotePreLoadLibrary 0x1000 failing_process =
     (Inr NULL,
      failing_process\<lparr>trace := [Load_szDll 0x1000, Load_chars 0x2000, Call_GetModuleHandle NULL]\<rparr>)"
proof -
  have failed: "module_handles failing_process NULL = (NULL :: 64 ptr)"
    by (rule example_lookups)
  have name: "requested_name failing_process 0x1000 = Some ''APP.EXE''"
    by (rule example_names)
  have host: "case_variant ''APP.EXE'' (cstr ''app.exe'')"
    by (rule example_case_variants)
  have run: "load_exe_hook ''app.exe'' dliNotePreLoadLibrary 0x1000 failing_process =
     (Inr NULL,
      failing_process\<lparr>trace := [Load_szDll 0x1000, Load_chars 0x2000, Call_GetModuleHandle NULL]\<rparr>)"
    using host
    by (simp add: hook_defs example_defs NULL_def ascii_stricmp_eq_0_iff)
  show ?thesis
    using failed name host run hook_lookup_failure_returns_null [OF failed name host]
    by simp
qed

text \<open>
  C6. The result is a function of the event, of the requested name and of the image
  handle: two calls with one event whose descriptors name the same library, in
  processes with one image handle, return the same result, whatever the addresses and
  the other fields of the two descriptors and the rest of the two memories.
\<close>

theorem hook_result_depends_on_event_and_name:
  assumes name1: "requested_name s1 info1 = Some n"
    and name2: "requested_name s2 info2 = Some n"
    and image: "module_handles s1 NULL = module_handles s2 NULL"
  shows "fst (load_exe_hook NODE_HOST_BINARY event info1 s1) =
           fst (load_exe_hook NODE_HOST_BINARY event info2 s2)"
  using image
  by (simp add: load_exe_hook_result [OF name1] load_exe_hook_result [OF name2])

theorem hook_result_depends_on_event_and_name_witness:
  "requested_name example_process 0x1000 = Some ''APP.EXE'' \<and>
   requested_name example_process 0x1300 = Some ''APP.EXE'' \<and>
   example_descriptors 0x1000 \<noteq> example_descriptors 0x1300 \<and>
   fst (load_exe_hook ''app.exe'' dliNotePreLoadLibrary 0x1000 example_process) =
     fst (load_exe_hook ''app.exe'' dliNotePreLoadLibrary 0x1300 example_process)"
proof -
  have name1: "requested_name example_process 0x1000 = Some ''APP.EXE''"
    and name2: "requested_name example_process 0x1300 = Some ''APP.EXE''"
    by (rule example_names)+
  have differ: "example_descriptors 0x1000 \<noteq> example_descriptors 0x1300"
    by (simp add: example_descriptors_def)
  show ?thesis
    using name1 name2 differ
      hook_result_depends_on_event_and_name [OF name1 name2 refl, of "''app.exe''" dliNotePreLoadLibrary]
    by simp
qed

text \<open>
  C7. A call leaves the process as it found it but for the trace, so a second call with
  the same arguments, made in the state the first call left, returns the same result.
\<close>

theorem hook_repeated_call_same_result:
  "fst (load_exe_hook NODE_HOST_BINARY event info
          (snd (load_exe_hook NODE_HOST_BINARY event info s))) =
     fst (load_exe_hook NODE_HOST_BINARY event info s)"
proof -
  obtain t where "snd (load_exe_hook NODE_HOST_BINARY event info s) = s\<lparr>trace := t\<rparr>"
    using load_exe_hook_frame by blast
  then show ?thesis
    by (simp add: load_exe_hook_trace_irrelevant)
qed

theorem hook_repeated_call_same_result_witness:
  "fst (load_exe_hook ''app.exe'' dliNotePreLoadLibrary 0x1000
          (snd (load_exe_hook ''app.exe'' dliNotePreLoadLibrary 0x1000 example_process))) =
     Inr 0x400000"
proof -
  have name: "requested_name example_process 0x1000 = Some ''APP.EXE''"
    by (rule example_names)
  have "fst (load_exe_hook ''app.exe'' dliNotePreLoadLibrary 0x1000 example_process) =
          Inr 0x400000"
    using example_case_variants(1)
    by (simp add: load_exe_hook_result [OF name] example_lookups)
  then show ?thesis
    using hook_repeated_call_same_result
      [of "''app.exe''" dliNotePreLoadLibrary "0x1000" example_process]
    by simp
qed

text \<open>
  C8. The function of \<^verbatim>\<open>win_delay_load_hook.cc\<close> and the function of
  \<^verbatim>\<open>win_delay_load_hook.c\<close> return the same result and leave the same state, for every
  event, every descriptor pointer and every process.
\<close>

theorem hook_variants_agree:
  "load_exe_hook_cc NODE_HOST_BINARY event info s = load_exe_hook NODE_HOST_BINARY event info s"
  by (simp add: load_exe_hook_cc_def load_exe_hook_def)

text \<open>
  C10. For every event other than the pre-load notification the hook returns the null
  result and leaves the process, and with it the trace of reads, as it was: it has read
  nothing through \<open>info\<close>, which may be null or address no descriptor. This holds of
  the function of either source file.
\<close>

theorem hook_other_event_reads_nothing:
  assumes "event \<noteq> dliNotePreLoadLibrary"
  shows "load_exe_hook NODE_HOST_BINARY event info s = (Inr NULL, s) \<and>
         load_exe_hook_cc NODE_HOST_BINARY event info s = (Inr NULL, s)"
  using assms by (simp add: load_exe_hook_cc_eq load_exe_hook_other_event)

theorem hook_other_event_reads_nothing_witness:
  "dliStartProcessing \<noteq> dliNotePreLoadLibrary \<and>
   descriptors empty_process NULL = None \<and>
   load_exe_hook ''app.exe'' dliStartProcessing NULL empty_process = (Inr NULL, empty_process) \<and>
   load_exe_hook_cc ''app.exe'' dliStartProcessing NULL empty_process = (Inr NULL, empty_process)"
proof -
  have event: "dliStartProcessing \<noteq> dliNotePreLoadLibrary"
    by (simp add: dliStartProcessing_def dliNotePreLoadLibrary_def)
  have "descriptors empty_process NULL = None"
    by (simp add: empty_process_def)
  then show ?thesis
    using event
      hook_other_event_reads_nothing [OF event, of "''app.exe''" NULL empty_process]
    by simp
qed

end
